theory Spec2Isabelle
  imports Complex_Main "HOL-Library.Multiset"
begin

section \<open>Python values used by the engine client\<close>

text \<open>
  Exceptions are values. Only the exception classes that the modelled functions can raise
  are listed; the two with a payload carry the message text built by the source.
\<close>

datatype py_error =
    IndexError
  | ValueError
  | FileNotFoundError string
  | RuntimeError string

text \<open>
  A Python \<open>str\<close> is modelled as a \<open>string\<close> whose characters are the code points below
  256. \<open>py_isspace\<close> is \<open>str.isspace\<close> on them, which is what \<open>str.strip\<close> and \<open>int\<close> drop:
  tab, line feed, vertical tab, form feed, carriage return, the four separators 28 to 31,
  the blank, next line (133) and the no-break space (160). \<open>py_lower_char\<close> is
  \<open>str.lower\<close> on them. \<open>py_upper_char\<close> is \<open>str.upper\<close> on them except for 181, 223 and
  255, whose upper case is no character below 256 and which it leaves as they are; like
  their upper case, they do not occur in the alphabet of the board coordinates.
\<close>

definition py_isspace :: "char \<Rightarrow> bool" where
  "py_isspace c =
     ((of_char c :: nat) \<in> {9, 10, 11, 12, 13, 28, 29, 30, 31, 32, 133, 160})"

definition py_strip :: "string \<Rightarrow> string" where
  "py_strip s = rev (dropWhile py_isspace (rev (dropWhile py_isspace s)))"

definition py_upper_char :: "char \<Rightarrow> char" where
  "py_upper_char c =
     (if 97 \<le> (of_char c :: nat) \<and> (of_char c :: nat) \<le> 122
         \<or> 224 \<le> (of_char c :: nat) \<and> (of_char c :: nat) \<le> 254 \<and> (of_char c :: nat) \<noteq> 247
      then char_of (of_char c - 32 :: nat) else c)"

definition py_lower_char :: "char \<Rightarrow> char" where
  "py_lower_char c =
     (if 65 \<le> (of_char c :: nat) \<and> (of_char c :: nat) \<le> 90
         \<or> 192 \<le> (of_char c :: nat) \<and> (of_char c :: nat) \<le> 222 \<and> (of_char c :: nat) \<noteq> 215
      then char_of (of_char c + 32 :: nat) else c)"

definition py_lower :: "string \<Rightarrow> string" where
  "py_lower s = map py_lower_char s"

text \<open>\<open>sep.join(xs)\<close>.\<close>

fun py_join :: "string \<Rightarrow> string list \<Rightarrow> string" where
  "py_join sep [] = []"
| "py_join sep [x] = x"
| "py_join sep (x # y # ys) = x @ sep @ py_join sep (y # ys)"

text \<open>The slice \<open>xs[-n:]\<close> for a positive \<open>n\<close>: the last \<open>n\<close> elements, or all of them.\<close>

definition py_last_n :: "nat \<Rightarrow> 'a list \<Rightarrow> 'a list" where
  "py_last_n n xs = drop (length xs - n) xs"

text \<open>\<open>str(i)\<close> of an integer, which is also what an f-string prints for it.\<close>

definition digit_char :: "nat \<Rightarrow> char" where
  "digit_char d = char_of (48 + d)"

fun digits_of :: "nat \<Rightarrow> string" where
  "digits_of n =
     (if n < 10 then [digit_char n] else digits_of (n div 10) @ [digit_char (n mod 10)])"

declare digits_of.simps [simp del]

definition py_str_int :: "int \<Rightarrow> string" where
  "py_str_int i = (if i < 0 then CHR ''-'' # digits_of (nat (- i)) else digits_of (nat i))"

text \<open>
  \<open>int(s)\<close> of a string: surrounding whitespace is dropped, one sign is allowed, and the
  digits may be grouped by single underscores. Anything else raises \<open>ValueError\<close>.
\<close>

definition is_digit :: "char \<Rightarrow> bool" where
  "is_digit c = (48 \<le> (of_char c :: nat) \<and> (of_char c :: nat) \<le> 57)"

definition digit_val :: "char \<Rightarrow> nat" where
  "digit_val c = of_char c - 48"

fun int_digits :: "nat \<Rightarrow> string \<Rightarrow> nat option" where
  "int_digits acc [] = Some acc"
| "int_digits acc [c] = (if is_digit c then Some (acc * 10 + digit_val c) else None)"
| "int_digits acc (c # d # cs) =
     (if is_digit c then int_digits (acc * 10 + digit_val c) (d # cs)
      else if c = CHR ''_'' \<and> is_digit d then int_digits (acc * 10 + digit_val d) cs
      else None)"

definition int_unsigned :: "string \<Rightarrow> nat option" where
  "int_unsigned s =
     (case s of
        [] \<Rightarrow> None
      | c # cs \<Rightarrow> if is_digit c then int_digits (digit_val c) cs else None)"

definition py_int :: "string \<Rightarrow> py_error + int" where
  "py_int s =
     (case py_strip s of
        [] \<Rightarrow> Inl ValueError
      | c # cs \<Rightarrow>
          if c = CHR ''-'' then
            (case int_unsigned cs of None \<Rightarrow> Inl ValueError | Some n \<Rightarrow> Inr (- int n))
          else if c = CHR ''+'' then
            (case int_unsigned cs of None \<Rightarrow> Inl ValueError | Some n \<Rightarrow> Inr (int n))
          else
            (case int_unsigned (c # cs) of None \<Rightarrow> Inl ValueError | Some n \<Rightarrow> Inr (int n)))"

text \<open>
  \<open>xs[i]\<close> with Python's indexing: an index from \<open>-len(xs)\<close> to \<open>-1\<close> counts from the end,
  and an index outside \<open>-len(xs) .. len(xs) - 1\<close> raises \<open>IndexError\<close>.
\<close>

definition py_getitem :: "'a list \<Rightarrow> int \<Rightarrow> py_error + 'a" where
  "py_getitem xs i =
     (if 0 \<le> i \<and> i < int (length xs) then Inr (xs ! nat i)
      else if i < 0 \<and> - int (length xs) \<le> i then Inr (xs ! nat (int (length xs) + i))
      else Inl IndexError)"

text \<open>\<open>xs.index(x)\<close>: the first position of \<open>x\<close>, or \<open>ValueError\<close>.\<close>

fun find_index_from :: "nat \<Rightarrow> 'a list \<Rightarrow> 'a \<Rightarrow> nat option" where
  "find_index_from k [] x = None"
| "find_index_from k (y # ys) x = (if y = x then Some k else find_index_from (Suc k) ys x)"

definition py_index :: "'a list \<Rightarrow> 'a \<Rightarrow> py_error + nat" where
  "py_index xs x = (case find_index_from 0 xs x of None \<Rightarrow> Inl ValueError | Some k \<Rightarrow> Inr k)"

text \<open>\<open>d.get(key, default)\<close> where the key's value, when present, is \<open>v\<close>.\<close>

definition get_default :: "'a option \<Rightarrow> 'a \<Rightarrow> 'a" where
  "get_default v d = (case v of None \<Rightarrow> d | Some x \<Rightarrow> x)"


section \<open>sgf\_reader: the position and the board coordinates\<close>

text \<open>The dataclass \<open>GameState\<close>. A move is a colour and a coordinate, or a pass (\<open>None\<close>).\<close>

type_synonym move = "string \<times> (int \<times> int) option"

record GameState =
  board_size :: int
  moves :: "move list"
  current_player :: string
  komi :: real
  rules :: string
  black_captures :: int
  white_captures :: int
  board :: "string option list list"
  black_player :: string
  white_player :: string
  game_name :: string
  game_result :: string

definition letters :: string where
  "letters = ''ABCDEFGHJKLMNOPQRST''"

definition coord_to_gtp :: "int \<Rightarrow> int \<Rightarrow> int \<Rightarrow> py_error + string" where
  "coord_to_gtp row col bsize =
     (case py_getitem letters col of
        Inl e \<Rightarrow> Inl e
      | Inr c \<Rightarrow> Inr (c # py_str_int (bsize - row)))"

definition gtp_to_coord :: "string \<Rightarrow> int \<Rightarrow> py_error + (int \<times> int)" where
  "gtp_to_coord gtp_point bsize =
     (case gtp_point of
        [] \<Rightarrow> Inl IndexError
      | c # rest \<Rightarrow>
          (case py_index letters (py_upper_char c) of
             Inl e \<Rightarrow> Inl e
           | Inr col \<Rightarrow>
               (case py_int rest of
                  Inl e \<Rightarrow> Inl e
                | Inr n \<Rightarrow> Inr (bsize - n, int col))))"


section \<open>katago\_client: the protocol codec\<close>

text \<open>The dataclasses \<open>MoveInfo\<close> and \<open>AnalysisResult\<close>, and the reply they are read from.\<close>

record MoveInfo =
  move :: string
  visits :: int
  winrate :: real
  score_lead :: real
  pv :: "string list"
  prior :: real
  utility :: real

text \<open>
  A reply object of the engine, as \<open>json.loads\<close> returns it. Every key the client reads is
  optional (the source reads each with \<open>.get\<close> and a default) and, when present, has the
  type of the dataclass field it is stored in.
\<close>

record raw_move_info =
  mi_move :: "string option"
  mi_visits :: "int option"
  mi_winrate :: "real option"
  mi_scoreLead :: "real option"
  mi_pv :: "string list option"
  mi_prior :: "real option"
  mi_utility :: "real option"

record raw_root_info =
  ri_winrate :: "real option"
  ri_scoreLead :: "real option"
  ri_visits :: "int option"

record raw_reply =
  r_id :: "string option"
  r_turnNumber :: "int option"
  r_rootInfo :: "raw_root_info option"
  r_moveInfos :: "raw_move_info list option"
  r_ownership :: "real list option"

record AnalysisResult =
  ar_id :: string
  turn_number :: int
  ar_current_player :: string
  root_winrate :: real
  root_score_lead :: real
  root_visits :: int
  move_infos :: "MoveInfo list"
  ownership :: "real list option"
  raw_response :: "raw_reply option"

text \<open>The query object built for the engine; \<open>q_id\<close> is optional for \<open>_send_query\<close>.\<close>

record query =
  q_id :: "string option"
  q_moves :: "(string \<times> string) list"
  q_initialStones :: "(string \<times> string) list"
  q_rules :: string
  q_komi :: real
  q_boardXSize :: int
  q_boardYSize :: int
  q_analyzeTurns :: "int list"
  q_maxVisits :: int
  q_analysisPVLen :: int
  q_includeOwnership :: bool
  q_includePolicy :: bool

text \<open>The loop of \<open>_build_query\<close> over \<open>state.moves\<close>; a coordinate that cannot be printed raises.\<close>

fun encode_moves :: "int \<Rightarrow> move list \<Rightarrow> py_error + (string \<times> string) list" where
  "encode_moves bs [] = Inr []"
| "encode_moves bs ((color, coord) # ms) =
     (case (case coord of None \<Rightarrow> Inr ''pass'' | Some (r, c) \<Rightarrow> coord_to_gtp r c bs) of
        Inl e \<Rightarrow> Inl e
      | Inr move_str \<Rightarrow>
          (case encode_moves bs ms of
             Inl e \<Rightarrow> Inl e
           | Inr rest \<Rightarrow> Inr ((color, move_str) # rest)))"

definition rules_map :: "(string \<times> string) list" where
  "rules_map =
     [(''chinese'', ''chinese''),
      (''japanese'', ''japanese''),
      (''korean'', ''korean''),
      (''aga'', ''aga''),
      (''nz'', ''nz''),
      (''tromp-taylor'', ''tromp-taylor''),
      (''stone-scoring'', ''stone-scoring'')]"

text \<open>
  \<open>_build_query\<close>. The identifier \<open>str(uuid.uuid4())\<close> is an input, \<open>new_uuid\<close>.
\<close>

definition build_query ::
  "string \<Rightarrow> GameState \<Rightarrow> int \<Rightarrow> bool \<Rightarrow> bool \<Rightarrow> int \<Rightarrow> py_error + query" where
  "build_query new_uuid state max_visits include_ownership include_policy analysis_pv_len =
     (case encode_moves (board_size state) (moves state) of
        Inl e \<Rightarrow> Inl e
      | Inr mvs \<Rightarrow>
          Inr \<lparr> q_id = Some new_uuid,
                q_moves = mvs,
                q_initialStones = [],
                q_rules = get_default (map_of rules_map (py_lower (rules state))) ''chinese'',
                q_komi = komi state,
                q_boardXSize = board_size state,
                q_boardYSize = board_size state,
                q_analyzeTurns = [int (length mvs)],
                q_maxVisits = max_visits,
                q_analysisPVLen = analysis_pv_len,
                q_includeOwnership = include_ownership,
                q_includePolicy = include_policy \<rparr>)"

text \<open>\<open>_parse_response\<close>: one \<open>MoveInfo\<close> per entry of \<open>moveInfos\<close>, with the defaults of the source.\<close>

definition to_move_info :: "raw_move_info \<Rightarrow> MoveInfo" where
  "to_move_info mi =
     \<lparr> move = get_default (mi_move mi) '''',
       visits = get_default (mi_visits mi) 0,
       winrate = get_default (mi_winrate mi) 0.5,
       score_lead = get_default (mi_scoreLead mi) 0.0,
       pv = get_default (mi_pv mi) [],
       prior = get_default (mi_prior mi) 0.0,
       utility = get_default (mi_utility mi) 0.0 \<rparr>"

text \<open>
  \<open>move_infos.sort(key=lambda x: x.visits, reverse=True)\<close>. Python's sort is stable, and
  with \<open>reverse=True\<close> it reverses the list, sorts it in ascending order and reverses the
  outcome, so that entries with equal keys keep their order.
\<close>

definition sort_visits_reverse :: "MoveInfo list \<Rightarrow> MoveInfo list" where
  "sort_visits_reverse xs = rev (sort_key visits (rev xs))"

definition empty_dict :: raw_root_info where
  "empty_dict = \<lparr> ri_winrate = None, ri_scoreLead = None, ri_visits = None \<rparr>"

definition parse_response :: "raw_reply \<Rightarrow> GameState \<Rightarrow> AnalysisResult" where
  "parse_response response state =
     (let root_info = get_default (r_rootInfo response) empty_dict;
          move_infos_raw = get_default (r_moveInfos response) [];
          parsed = sort_visits_reverse (map to_move_info move_infos_raw)
      in \<lparr> ar_id = get_default (r_id response) '''',
            turn_number = get_default (r_turnNumber response) (int (length (moves state))),
            ar_current_player = current_player state,
            root_winrate = get_default (ri_winrate root_info) 0.5,
            root_score_lead = get_default (ri_scoreLead root_info) 0.0,
            root_visits = get_default (ri_visits root_info) 0,
            move_infos = parsed,
            ownership = r_ownership response,
            raw_response = Some response \<rparr>)"


section \<open>katago\_client: the client and the engine process\<close>

text \<open>
  The fields of \<open>KataGoClient\<close>. \<open>process\<close> holds the command line of the \<open>Popen\<close>
  object, when there is one. Every \<open>threading.Event\<close> the client creates is a cell of
  \<open>events\<close> (its flag), named by a number; \<open>next_event\<close> is the first number not yet
  given out, and \<open>pending_requests\<close> maps an identifier to the number of its event, as the
  dictionary of the source maps it to the object. The two thread fields say whether the
  thread has been started. Diagnostic printing under \<open>debug\<close> changes none of the fields
  and is left out.
\<close>

record KataGoClient =
  katago_path :: string
  model_path :: string
  config_path :: string
  analysis_threads :: int
  debug :: bool
  process :: "string list option"
  pending_requests :: "string \<rightharpoonup> nat"
  responses :: "string \<rightharpoonup> raw_reply"
  reader_thread :: bool
  stderr_thread :: bool
  startup_error :: "string option"
  stderr_lines :: "string list"
  events :: "nat \<Rightarrow> bool"
  next_event :: nat

text \<open>What the client does to the operating system: calls of \<open>Popen\<close>, queries written.\<close>

record world =
  popen_calls :: "string list list"
  stdin_sent :: "query list"

definition init_client :: "string \<Rightarrow> string \<Rightarrow> string \<Rightarrow> int \<Rightarrow> bool \<Rightarrow> KataGoClient" where
  "init_client kpath mpath cpath threads dbg =
     \<lparr> katago_path = kpath,
       model_path = mpath,
       config_path = cpath,
       analysis_threads = threads,
       debug = dbg,
       process = None,
       pending_requests = Map.empty,
       responses = Map.empty,
       reader_thread = False,
       stderr_thread = False,
       startup_error = None,
       stderr_lines = [],
       events = (\<lambda>_. False),
       next_event = 0 \<rparr>"

text \<open>
  What the operating system answers during one call of \<open>start\<close>: whether the held process
  is still running (\<open>poll()\<close> is \<open>None\<close>), which paths exist, the text of the exception
  \<open>Popen\<close> raises if it raises, and the standard-error text of the new process if it has
  exited when it is polled after half a second.
\<close>

record start_env =
  se_running :: bool
  se_exists :: "string \<Rightarrow> bool"
  se_popen_raises :: "string option"
  se_exit_stderr :: "string option"

definition start ::
  "start_env \<Rightarrow> KataGoClient \<times> world \<Rightarrow> (py_error + unit) \<times> KataGoClient \<times> world" where
  "start env cw =
     (case cw of (c0, w0) \<Rightarrow>
        if process c0 \<noteq> None \<and> se_running env then (Inr (), c0, w0)
        else
          let c1 = c0\<lparr>startup_error := None\<rparr> in
          if \<not> se_exists env (katago_path c1) then
            (let msg = ''KataGo executable not found: '' @ katago_path c1
             in (Inl (FileNotFoundError msg), c1\<lparr>startup_error := Some msg\<rparr>, w0))
          else if \<not> se_exists env (model_path c1) then
            (let msg = ''KataGo model not found: '' @ model_path c1
             in (Inl (FileNotFoundError msg), c1\<lparr>startup_error := Some msg\<rparr>, w0))
          else
            let cmd = [katago_path c1, ''analysis'', ''-model'', model_path c1,
                       ''-config'', config_path c1,
                       ''-analysis-threads'', py_str_int (analysis_threads c1)];
                w1 = w0\<lparr>popen_calls := popen_calls w0 @ [cmd]\<rparr>
            in
              (case se_popen_raises env of
                 Some e \<Rightarrow>
                   (let msg = ''Failed to start KataGo: '' @ e
                    in (Inl (RuntimeError msg), c1\<lparr>startup_error := Some msg\<rparr>, w1))
               | None \<Rightarrow>
                   (let c2 = c1\<lparr>process := Some cmd\<rparr> in
                    case se_exit_stderr env of
                      Some stderr_output \<Rightarrow>
                        (let msg = ''KataGo process died immediately. Stderr: '' @ stderr_output
                         in (Inl (RuntimeError msg), c2\<lparr>startup_error := Some msg\<rparr>, w1))
                    | None \<Rightarrow>
                        (Inr (), c2\<lparr>reader_thread := True, stderr_thread := True\<rparr>, w1))))"

text \<open>\<open>_is_alive\<close>, given what \<open>poll()\<close> answers, and \<open>stop\<close>.\<close>

definition is_alive :: "KataGoClient \<Rightarrow> bool \<Rightarrow> bool" where
  "is_alive c running = (process c \<noteq> None \<and> running)"

definition stop :: "KataGoClient \<Rightarrow> KataGoClient" where
  "stop c = (if process c \<noteq> None then c\<lparr>process := None\<rparr> else c)"

text \<open>
  \<open>_read_stderr\<close>: every line read is stripped and appended, blank ones too; an empty read
  is the end of the stream.
\<close>

fun read_stderr :: "KataGoClient \<Rightarrow> string list \<Rightarrow> KataGoClient" where
  "read_stderr c [] = c"
| "read_stderr c (raw # rest) =
     (if process c = None then c
      else if raw = [] then c
      else read_stderr (c\<lparr>stderr_lines := stderr_lines c @ [py_strip raw]\<rparr>) rest)"


section \<open>katago\_client: the stdout reader\<close>

text \<open>
  \<open>json.loads\<close> is a function of the standard library and a parameter of the reader: it
  raises \<open>JSONDecodeError\<close>, or raises another exception (\<open>RecursionError\<close> on deep
  nesting), or returns a value that is not an object (a number, \<open>NaN\<close>, an array, a
  text), or returns an object.
\<close>

datatype loads_result = JSONDecodeError | OtherException | NonObject | Object raw_reply

text \<open>One \<open>readline()\<close> of the engine's standard output: the text read, or an exception.\<close>

datatype read_event = Line string | ReadError

text \<open>How the loop of \<open>_read_responses\<close> ended.\<close>

datatype reader_exit = StreamClosed | ReaderException | NoProcess

text \<open>
  Lines 172 to 181: what the reader does with a decoded object, under the lock. An
  identifier that is absent (\<open>None\<close>) or empty is false in the test \<open>if request_id\<close>.
\<close>

definition deliver :: "KataGoClient \<Rightarrow> raw_reply \<Rightarrow> KataGoClient" where
  "deliver c response =
     (case r_id response of
        None \<Rightarrow> c
      | Some request_id \<Rightarrow>
          if request_id = [] then c
          else
            let c1 = c\<lparr>responses := (responses c)(request_id \<mapsto> response)\<rparr> in
            (case pending_requests c1 request_id of
               None \<Rightarrow> c1
             | Some event \<Rightarrow> c1\<lparr>events := (events c1)(event := True)\<rparr>))"

text \<open>
  \<open>_read_responses\<close> on the reads of the stream, in order; after the last one the stream is
  closed and \<open>readline()\<close> returns the empty text. The inner handler catches
  \<open>JSONDecodeError\<close> only. Another exception of \<open>json.loads\<close>, and the \<open>AttributeError\<close> of
  a value that is not an object and so has no \<open>get\<close>, are caught by the outer handler,
  which leaves the loop.
\<close>

fun read_responses ::
  "(string \<Rightarrow> loads_result) \<Rightarrow> KataGoClient \<Rightarrow> read_event list \<Rightarrow> reader_exit \<times> KataGoClient" where
  "read_responses loads c [] = (if process c = None then NoProcess else StreamClosed, c)"
| "read_responses loads c (ev # rest) =
     (if process c = None then (NoProcess, c)
      else
        (case ev of
           ReadError \<Rightarrow> (ReaderException, c)
         | Line raw \<Rightarrow>
             if raw = [] then (StreamClosed, c)
             else if py_strip raw = [] then read_responses loads c rest
             else
               (case loads (py_strip raw) of
                  JSONDecodeError \<Rightarrow> read_responses loads c rest
                | OtherException \<Rightarrow> (ReaderException, c)
                | NonObject \<Rightarrow> (ReaderException, c)
                | Object response \<Rightarrow> read_responses loads (deliver c response) rest)))"


section \<open>katago\_client: sending a query and waiting for its reply\<close>

text \<open>
  What the operating system answers during one call of \<open>_send_query\<close>: the two polls of
  \<open>_is_alive\<close>, the answers for \<open>start\<close> if it is called, the identifier
  \<open>str(uuid.uuid4())\<close>, and whether the write to the standard input raises
  \<open>BrokenPipeError\<close> or another \<open>OSError\<close>.
\<close>

record send_env =
  sn_alive_before :: bool
  sn_start :: start_env
  sn_alive_after :: bool
  sn_uuid :: string
  sn_write_fails :: bool

definition newline :: string where
  "newline = [CHR 0x0A]"

definition send_query ::
  "send_env \<Rightarrow> KataGoClient \<times> world \<Rightarrow> query \<Rightarrow> (py_error + string) \<times> KataGoClient \<times> world" where
  "send_query env cw qry =
     (case (if is_alive (fst cw) (sn_alive_before env) then (Inr (), cw)
            else start (sn_start env) cw) of
        (Inl e, c1, w1) \<Rightarrow> (Inl e, c1, w1)
      | (Inr u, c1, w1) \<Rightarrow>
          if \<not> is_alive c1 (sn_alive_after env) then
            (Inl (RuntimeError (''KataGo process failed to start: '' @
                    (case startup_error c1 of None \<Rightarrow> ''None'' | Some msg \<Rightarrow> msg))), c1, w1)
          else
            let request_id = get_default (q_id qry) (sn_uuid env);
                qry1 = qry\<lparr>q_id := Some request_id\<rparr>;
                event = next_event c1;
                c2 = c1\<lparr>events := (events c1)(event := False),
                        next_event := Suc event,
                        pending_requests := (pending_requests c1)(request_id \<mapsto> event)\<rparr>
            in
              if sn_write_fails env then
                (let stderr_output =
                       (if stderr_lines c2 \<noteq> []
                        then py_join newline (py_last_n 20 (stderr_lines c2)) else []);
                     error_msg =
                       ''KataGo process died (broken pipe). Recent stderr:'' @ newline @ stderr_output
                 in (Inl (RuntimeError error_msg),
                     c2\<lparr>pending_requests := (pending_requests c2)(request_id := None)\<rparr>, w1))
              else (Inr request_id, c2, w1\<lparr>stdin_sent := stdin_sent w1 @ [qry1]\<rparr>))"

text \<open>
  \<open>_wait_for_response\<close>. While the caller blocks in \<open>event.wait(timeout)\<close> the reader
  thread goes on: \<open>arrived\<close> are the reads it handles until the caller goes on, which is
  when the flag is set or the time is over. \<open>wait\<close> answers whether the flag is set.
\<close>

definition wait_for_response ::
  "(string \<Rightarrow> loads_result) \<Rightarrow> read_event list \<Rightarrow> KataGoClient \<Rightarrow> string \<Rightarrow>
   raw_reply option \<times> KataGoClient" where
  "wait_for_response loads arrived c request_id =
     (case pending_requests c request_id of
        None \<Rightarrow> (None, c)
      | Some event \<Rightarrow>
          let c1 = snd (read_responses loads c arrived) in
          if events c1 event then
            (responses c1 request_id, c1\<lparr>responses := (responses c1)(request_id := None)\<rparr>)
          else (None, c1))"

text \<open>
  \<open>analyze_position\<close>; \<open>new_uuid\<close> is the identifier \<open>_build_query\<close> draws.
\<close>

definition analyze_position ::
  "(string \<Rightarrow> loads_result) \<Rightarrow> string \<Rightarrow> send_env \<Rightarrow> read_event list \<Rightarrow>
   KataGoClient \<times> world \<Rightarrow> GameState \<Rightarrow> int \<Rightarrow> bool \<Rightarrow> bool \<Rightarrow> int \<Rightarrow>
   (py_error + AnalysisResult option) \<times> KataGoClient \<times> world" where
  "analyze_position loads new_uuid env arrived cw state max_visits include_ownership
       include_policy analysis_pv_len =
     (case build_query new_uuid state max_visits include_ownership include_policy
             analysis_pv_len of
        Inl e \<Rightarrow> (Inl e, cw)
      | Inr qry \<Rightarrow>
          (case send_query env cw qry of
             (Inl e, c1, w1) \<Rightarrow> (Inl e, c1, w1)
           | (Inr request_id, c1, w1) \<Rightarrow>
               (case wait_for_response loads arrived c1 request_id of
                  (None, c2) \<Rightarrow> (Inr None, c2, w1)
                | (Some response, c2) \<Rightarrow> (Inr (Some (parse_response response state)), c2, w1))))"

text \<open>
  Distinct identifiers of the table name distinct events, and every event of the table has
  been created: each \<open>_send_query\<close> makes a new \<open>Event\<close> for its entry.
\<close>

definition events_distinct :: "KataGoClient \<Rightarrow> bool" where
  "events_distinct c =
     ((\<forall>k k' e. pending_requests c k = Some e \<and> pending_requests c k' = Some e \<longrightarrow> k = k')
      \<and> (\<forall>k e. pending_requests c k = Some e \<longrightarrow> e < next_event c))"


text \<open>
  Two client states agree on an identifier when they have the same process and table, the
  same cached reply for the identifier and the same flag of its event: that is all a wait
  for the identifier reads.
\<close>

definition agree_on :: "string \<Rightarrow> KataGoClient \<Rightarrow> KataGoClient \<Rightarrow> bool" where
  "agree_on k c d =
     (process c = process d \<and> pending_requests c = pending_requests d
      \<and> responses c k = responses d k
      \<and> (\<forall>e. pending_requests c k = Some e \<longrightarrow> events c e = events d e))"


section \<open>Example values\<close>

text \<open>A position after a move at Q16 and a pass, and replies of the engine for it.\<close>

definition example_state :: GameState where
  "example_state =
     \<lparr> board_size = 19, moves = [(''B'', Some (3, 15)), (''W'', None)],
       current_player = ''B'', komi = 7.5, rules = ''Japanese'', black_captures = 0,
       white_captures = 0, board = [], black_player = ''Black'', white_player = ''White'',
       game_name = [], game_result = [] \<rparr>"

definition example_query :: "string \<Rightarrow> query" where
  "example_query rule_name =
     \<lparr> q_id = Some ''u1'', q_moves = [(''B'', ''Q16''), (''W'', ''pass'')],
       q_initialStones = [], q_rules = rule_name, q_komi = 7.5, q_boardXSize = 19,
       q_boardYSize = 19, q_analyzeTurns = [2], q_maxVisits = 100, q_analysisPVLen = 10,
       q_includeOwnership = True, q_includePolicy = False \<rparr>"

definition example_d4 :: raw_move_info where
  "example_d4 =
     \<lparr> mi_move = Some ''D4'', mi_visits = Some 50, mi_winrate = Some 0.6,
       mi_scoreLead = None, mi_pv = None, mi_prior = None, mi_utility = None \<rparr>"

definition example_q16 :: raw_move_info where
  "example_q16 =
     \<lparr> mi_move = Some ''Q16'', mi_visits = Some 80, mi_winrate = Some 0.65,
       mi_scoreLead = None, mi_pv = None, mi_prior = None, mi_utility = None \<rparr>"

definition example_bare :: raw_move_info where
  "example_bare =
     \<lparr> mi_move = Some ''C3'', mi_visits = None, mi_winrate = None,
       mi_scoreLead = None, mi_pv = None, mi_prior = None, mi_utility = None \<rparr>"

definition example_reply :: raw_reply where
  "example_reply =
     \<lparr> r_id = Some ''u1'', r_turnNumber = None,
       r_rootInfo = Some \<lparr> ri_winrate = Some 0.62, ri_scoreLead = Some 3.5,
                           ri_visits = Some 100 \<rparr>,
       r_moveInfos = Some [example_d4, example_q16], r_ownership = None \<rparr>"

definition example_noroot :: raw_reply where
  "example_noroot =
     \<lparr> r_id = Some ''u2'', r_turnNumber = None, r_rootInfo = None,
       r_moveInfos = Some [example_bare, example_q16], r_ownership = None \<rparr>"

definition example_partial_root :: raw_root_info where
  "example_partial_root = \<lparr> ri_winrate = None, ri_scoreLead = None, ri_visits = Some 7 \<rparr>"


text \<open>
  A client with a running engine, the operating system's answers for one call, and a
  \<open>json.loads\<close> that knows four lines: the reply of the specification's scenario, an
  object without identifier, an array and \<open>NaN\<close>, which \<open>json.loads\<close> reads as a number;
  every other text is a decode error.
\<close>

definition example_line :: string where
  \<open>example_line = ''{"id": "u1", "rootInfo": {"winrate": 0.62, "scoreLead": 3.5, "visits": 100}, "moveInfos": [{"move": "D4", "visits": 50, "winrate": 0.6}, {"move": "Q16", "visits": 80, "winrate": 0.65}]}''\<close>

definition example_client :: KataGoClient where
  "example_client =
     (init_client ''/usr/local/bin/katago'' ''/models/kata1.bin.gz'' ''/etc/katago/analysis.cfg''
        2 False)
     \<lparr> process := Some [''/usr/local/bin/katago'', ''analysis''],
       reader_thread := True, stderr_thread := True,
       stderr_lines := [''loading model'', ''ready''] \<rparr>"

definition example_world :: world where
  "example_world = \<lparr> popen_calls = [], stdin_sent = [] \<rparr>"

definition example_start_env :: start_env where
  "example_start_env =
     \<lparr> se_running = True,
       se_exists = (\<lambda>p. p = ''/usr/local/bin/katago'' \<or> p = ''/models/kata1.bin.gz''),
       se_popen_raises = None, se_exit_stderr = None \<rparr>"

definition example_send_env :: send_env where
  "example_send_env =
     \<lparr> sn_alive_before = True, sn_start = example_start_env, sn_alive_after = True,
       sn_uuid = ''u9'', sn_write_fails = False \<rparr>"

definition example_broken_env :: send_env where
  "example_broken_env = example_send_env\<lparr>sn_write_fails := True\<rparr>"

definition example_cold_env :: send_env where
  "example_cold_env =
     \<lparr> sn_alive_before = False,
       sn_start = example_start_env\<lparr>se_running := False\<rparr>,
       sn_alive_after = True, sn_uuid = ''u9'', sn_write_fails = True \<rparr>"

definition example_sent :: KataGoClient where
  "example_sent =
     example_client\<lparr>events := (events example_client)(0 := False), next_event := 1,
                    pending_requests := [''u1'' \<mapsto> 0]\<rparr>"

definition example_stopped :: KataGoClient where
  "example_stopped = example_client\<lparr>process := None\<rparr>"

definition example_no_config_env :: start_env where
  "example_no_config_env = example_start_env\<lparr>se_running := False\<rparr>"

definition example_no_files_env :: start_env where
  "example_no_files_env = example_start_env\<lparr>se_exists := (\<lambda>p. False)\<rparr>"

definition example_no_model_env :: start_env where
  "example_no_model_env =
     example_start_env\<lparr>se_running := False, se_exists := (\<lambda>p. p = ''/usr/local/bin/katago'')\<rparr>"

definition example_cmd :: "string list" where
  "example_cmd =
     [''/usr/local/bin/katago'', ''analysis'', ''-model'', ''/models/kata1.bin.gz'',
      ''-config'', ''/etc/katago/analysis.cfg'', ''-analysis-threads'', ''2'']"

definition example_two_pending :: KataGoClient where
  "example_two_pending =
     example_client \<lparr> pending_requests := [''u1'' \<mapsto> 0, ''u2'' \<mapsto> 1], next_event := 2 \<rparr>"

definition example_no_id :: raw_reply where
  "example_no_id =
     \<lparr> r_id = None, r_turnNumber = None, r_rootInfo = Some empty_dict,
       r_moveInfos = None, r_ownership = None \<rparr>"

definition example_no_id_line :: string where
  \<open>example_no_id_line = ''{"rootInfo": {}}''\<close>

definition example_loads :: "string \<Rightarrow> loads_result" where
  "example_loads s =
     (if s = example_line then Object example_reply
      else if s = example_no_id_line then Object example_no_id
      else if s = ''[1, 2]'' \<or> s = ''NaN'' then NonObject
      else JSONDecodeError)"


section \<open>Board coordinates\<close>

lemma digit_char_ok: "d < 10 \<Longrightarrow> is_digit (digit_char d) \<and> digit_val (digit_char d) = d"
  by (simp add: is_digit_def digit_val_def digit_char_def)

lemma digits_of_all_digits: "c \<in> set (digits_of n) \<Longrightarrow> is_digit c"
proof (induction n arbitrary: c rule: digits_of.induct)
  case (1 n)
  show ?case
  proof (cases "n < 10")
    case True
    with "1.prems" show ?thesis
      by (simp add: digits_of.simps [of n] digit_char_ok)
  next
    case False
    with "1.prems" "1.IH" show ?thesis
      by (auto simp add: digits_of.simps [of n] digit_char_ok)
  qed
qed

lemma digits_of_nonempty: "digits_of n \<noteq> []"
  by (subst digits_of.simps) simp

lemma int_digits_all_digits:
  "(\<And>c. c \<in> set cs \<Longrightarrow> is_digit c) \<Longrightarrow>
   int_digits acc cs = Some (foldl (\<lambda>a c. a * 10 + digit_val c) acc cs)"
  by (induction acc cs rule: int_digits.induct) auto

lemma foldl_digits_of:
  "foldl (\<lambda>a c. a * 10 + digit_val c) acc (digits_of n) = acc * 10 ^ length (digits_of n) + n"
proof (induction n arbitrary: acc rule: digits_of.induct)
  case (1 n)
  show ?case
  proof (cases "n < 10")
    case True
    then show ?thesis
      by (simp add: digits_of.simps [of n] digit_char_ok)
  next
    case False
    then show ?thesis
      using "1.IH" [OF False, of acc]
      by (simp add: digits_of.simps [of n] digit_char_ok algebra_simps)
  qed
qed

lemma int_unsigned_digits_of: "int_unsigned (digits_of n) = Some n"
proof -
  obtain c cs where eq: "digits_of n = c # cs"
    using digits_of_nonempty [of n] by (cases "digits_of n") auto
  have dig: "\<And>x. x \<in> set (c # cs) \<Longrightarrow> is_digit x"
    using digits_of_all_digits [of _ n] eq by simp
  have "foldl (\<lambda>a c. a * 10 + digit_val c) 0 (c # cs) = n"
    using foldl_digits_of [of 0 n] eq by simp
  then have "foldl (\<lambda>a c. a * 10 + digit_val c) (digit_val c) cs = n"
    by simp
  moreover have "int_digits (digit_val c) cs =
      Some (foldl (\<lambda>a c. a * 10 + digit_val c) (digit_val c) cs)"
    using dig by (intro int_digits_all_digits) simp
  ultimately show ?thesis
    using dig by (simp add: int_unsigned_def eq)
qed

lemma is_digit_not_space: "is_digit c \<Longrightarrow> \<not> py_isspace c"
  by (auto simp add: is_digit_def py_isspace_def)

lemma py_strip_id:
  assumes "s \<noteq> []" "\<not> py_isspace (hd s)" "\<not> py_isspace (last s)"
  shows "py_strip s = s"
proof -
  have "dropWhile py_isspace s = s"
    using assms by (cases s) auto
  moreover have "dropWhile py_isspace (rev s) = rev s"
    using assms by (cases "rev s") (auto simp add: hd_rev)
  ultimately show ?thesis
    by (simp add: py_strip_def)
qed

lemma py_int_digits_of: "py_int (digits_of n) = Inr (int n)"
proof -
  obtain c cs where eq: "digits_of n = c # cs"
    using digits_of_nonempty [of n] by (cases "digits_of n") auto
  have dig: "\<And>x. x \<in> set (digits_of n) \<Longrightarrow> is_digit x"
    using digits_of_all_digits by blast
  have "is_digit (hd (digits_of n))" "is_digit (last (digits_of n))"
    using dig digits_of_nonempty [of n] by simp_all
  then have strip: "py_strip (digits_of n) = digits_of n"
    using digits_of_nonempty [of n] by (intro py_strip_id) (simp_all add: is_digit_not_space)
  have "is_digit c"
    using dig eq by simp
  then have "c \<noteq> CHR ''-''" "c \<noteq> CHR ''+''"
    by (auto simp add: is_digit_def)
  then show ?thesis
    using int_unsigned_digits_of [of n] strip by (simp add: py_int_def eq)
qed

lemma py_int_py_str_int: "0 \<le> i \<Longrightarrow> py_int (py_str_int i) = Inr i"
  by (simp add: py_str_int_def py_int_digits_of)

lemma find_index_from_nth:
  "distinct xs \<Longrightarrow> k < length xs \<Longrightarrow> find_index_from j xs (xs ! k) = Some (j + k)"
proof (induction xs arbitrary: j k)
  case Nil
  then show ?case by simp
next
  case (Cons y ys)
  show ?case
  proof (cases k)
    case 0
    then show ?thesis by simp
  next
    case (Suc m)
    with Cons.prems have "ys ! m \<in> set ys" "y \<notin> set ys" by auto
    then have "y \<noteq> ys ! m" by auto
    with Suc Cons.prems Cons.IH [of m "Suc j"] show ?thesis by simp
  qed
qed

lemma letters_upper: "c \<in> set letters \<Longrightarrow> py_upper_char c = c"
  by (auto simp add: letters_def py_upper_char_def)

lemma letters_distinct: "distinct letters"
  by (simp add: letters_def)

lemma letters_length: "length letters = 19"
  by (simp add: letters_def)

lemma letters_index:
  assumes "0 \<le> col" "col < 19"
  shows "py_getitem letters col = Inr (letters ! nat col)"
    and "py_index letters (py_upper_char (letters ! nat col)) = Inr (nat col)"
proof -
  have k: "nat col < length letters"
    using assms by (simp add: letters_length)
  show "py_getitem letters col = Inr (letters ! nat col)"
    using assms by (simp add: py_getitem_def letters_length)
  have "py_upper_char (letters ! nat col) = letters ! nat col"
    using k by (intro letters_upper) simp
  then show "py_index letters (py_upper_char (letters ! nat col)) = Inr (nat col)"
    using find_index_from_nth [OF letters_distinct k, of 0] by (simp add: py_index_def)
qed

text \<open>
  C2. For a board of at most 19 lines and a coordinate \<open>(row, col)\<close> on it,
  \<open>coord_to_gtp\<close> returns the column letter at position \<open>col\<close> of the alphabet without
  \<open>I\<close>, followed by the decimal numeral of \<open>board_size - row\<close> (rows are counted from the
  bottom, the top row \<open>0\<close> getting the number \<open>board_size\<close>), and \<open>gtp_to_coord\<close> maps that
  text back to \<open>(row, col)\<close>. The letter is never \<open>I\<close>.
\<close>

theorem coord_roundtrip:
  assumes "0 \<le> row" "row < bsize" "0 \<le> col" "col < bsize" "bsize \<le> 19"
  shows "coord_to_gtp row col bsize =
           Inr (letters ! nat col # py_str_int (bsize - row))
       \<and> gtp_to_coord (letters ! nat col # py_str_int (bsize - row)) bsize =
           Inr (row, col)
       \<and> letters ! nat col \<noteq> CHR ''I''"
proof -
  have c: "0 \<le> col" "col < 19"
    using assms by auto
  have r: "0 \<le> bsize - row"
    using assms by simp
  have "letters ! nat col \<in> set letters"
    using c by (simp add: letters_length)
  moreover have "CHR ''I'' \<notin> set letters"
    by (simp add: letters_def)
  ultimately have "letters ! nat col \<noteq> CHR ''I''"
    by metis
  then show ?thesis
    using letters_index [OF c] py_int_py_str_int [OF r] c
    by (simp add: coord_to_gtp_def gtp_to_coord_def)
qed

lemma py_str_int_16: "py_str_int 16 = ''16''"
  by code_simp

lemma py_str_int_11: "py_str_int 11 = ''11''"
  by code_simp

theorem coord_roundtrip_witness:
  "coord_to_gtp 3 15 19 = Inr ''Q16'' \<and> gtp_to_coord ''Q16'' 19 = Inr (3, 15)
   \<and> coord_to_gtp 8 8 19 = Inr ''J11'' \<and> gtp_to_coord ''J11'' 19 = Inr (8, 8)"
proof -
  have q: "letters ! nat 15 = CHR ''Q''" and j: "letters ! nat 8 = CHR ''J''"
    by (simp_all add: letters_def)
  show ?thesis
    using coord_roundtrip [of 3 19 15] coord_roundtrip [of 8 19 8] q j
      py_str_int_16 py_str_int_11
    by simp
qed

section \<open>The protocol codec\<close>

subsection \<open>Decoding a reply\<close>

lemma sort_visits_reverse_sorted:
  "sorted_wrt (\<lambda>a b. visits b \<le> visits a) (sort_visits_reverse xs)"
proof -
  have "sorted (map visits (sort_key visits (rev xs)))"
    by (rule sorted_sort_key)
  then have "sorted (rev (map visits (sort_visits_reverse xs)))"
    by (simp add: sort_visits_reverse_def rev_map)
  then have "sorted_wrt (\<lambda>a b. b \<le> a) (map visits (sort_visits_reverse xs))"
    by (simp add: sorted_wrt_rev)
  then show ?thesis
    by (simp add: sorted_wrt_map)
qed

lemma sort_visits_reverse_mset: "mset (sort_visits_reverse xs) = mset xs"
  by (simp add: sort_visits_reverse_def)

lemma sort_visits_reverse_keys:
  "map visits (sort_visits_reverse xs) = rev (sort (map visits xs))"
proof -
  have "mset (map visits (sort_key visits (rev xs))) = mset (map visits xs)"
    by simp
  moreover have "sorted (map visits (sort_key visits (rev xs)))"
    by (rule sorted_sort_key)
  ultimately have "sort (map visits xs) = map visits (sort_key visits (rev xs))"
    by (rule properties_for_sort)
  then show ?thesis
    by (simp add: sort_visits_reverse_def rev_map)
qed

lemma sort_visits_reverse_perm_keys:
  assumes "mset xs = mset ys"
  shows "map visits (sort_visits_reverse xs) = map visits (sort_visits_reverse ys)"
proof -
  have "mset (map visits xs) = mset (map visits ys)"
    using assms by (metis mset_map)
  then have "sort (map visits xs) = sort (map visits ys)"
    by (metis properties_for_sort sorted_sort mset_sort)
  then show ?thesis
    by (simp add: sort_visits_reverse_keys)
qed

text \<open>Candidates with the same number of visits stay in the order of the reply.\<close>

lemma sort_visits_reverse_stable:
  "filter (\<lambda>m. visits m = k) (sort_visits_reverse xs) = filter (\<lambda>m. visits m = k) xs"
proof -
  have "filter (\<lambda>m. visits m = k) (sort_visits_reverse xs) =
        rev (filter (\<lambda>m. visits m = k) (sort_key visits (rev xs)))"
    by (simp add: sort_visits_reverse_def rev_filter)
  also have "\<dots> = rev (filter (\<lambda>m. visits m = k) (rev xs))"
    by (simp only: sort_key_stable)
  also have "\<dots> = filter (\<lambda>m. visits m = k) xs"
    by (simp add: rev_filter)
  finally show ?thesis .
qed

lemma move_infos_parse:
  "move_infos (parse_response response state) =
     sort_visits_reverse (map to_move_info (get_default (r_moveInfos response) []))"
  by (simp add: parse_response_def Let_def)

text \<open>
  C1. For every reply object and position, the candidate list of the decoded result is
  in descending order of visits, and it holds exactly the decoded entries of
  \<open>moveInfos\<close>. The order of the reply does not matter: a reply whose \<open>moveInfos\<close> are the
  same entries in any other order decodes to the same sequence of visit counts.
\<close>

theorem parse_response_sorted:
  "sorted_wrt (\<lambda>a b. visits b \<le> visits a) (move_infos (parse_response response state))
   \<and> mset (move_infos (parse_response response state)) =
       mset (map to_move_info (get_default (r_moveInfos response) []))
   \<and> (mset raw' = mset (get_default (r_moveInfos response) []) \<longrightarrow>
        map visits (move_infos (parse_response (response\<lparr>r_moveInfos := Some raw'\<rparr>) state)) =
        map visits (move_infos (parse_response response state)))"
proof -
  have "mset raw' = mset (get_default (r_moveInfos response) []) \<Longrightarrow>
        map visits (sort_visits_reverse (map to_move_info raw')) =
        map visits (sort_visits_reverse
          (map to_move_info (get_default (r_moveInfos response) [])))"
    by (intro sort_visits_reverse_perm_keys) (metis mset_map)
  then show ?thesis
    by (simp add: move_infos_parse sort_visits_reverse_sorted sort_visits_reverse_mset
        get_default_def)
qed

theorem parse_response_sorted_witness:
  "mset [example_q16, example_d4] = mset (get_default (r_moveInfos example_reply) [])
   \<and> map visits (move_infos (parse_response example_reply example_state)) = [80, 50]
   \<and> map visits (move_infos
        (parse_response (example_reply\<lparr>r_moveInfos := Some [example_q16, example_d4]\<rparr>)
           example_state)) = [80, 50]"
proof -
  have m: "mset [example_q16, example_d4] = mset (get_default (r_moveInfos example_reply) [])"
    by (simp add: example_reply_def get_default_def add.commute)
  have v: "map visits (move_infos (parse_response example_reply example_state)) = [80, 50]"
    by (simp add: parse_response_def example_reply_def example_d4_def example_q16_def
        to_move_info_def get_default_def sort_visits_reverse_def)
  show ?thesis
    using parse_response_sorted [of example_reply example_state "[example_q16, example_d4]"] m v
    by simp
qed

text \<open>The reply of the specification's scenario decodes with Q16 before D4.\<close>

lemma example_sorted_moves:
  "map move (move_infos (parse_response example_reply example_state)) = [''Q16'', ''D4'']
   \<and> root_winrate (parse_response example_reply example_state) = 0.62"
  by (simp add: parse_response_def example_reply_def example_d4_def example_q16_def
      to_move_info_def get_default_def sort_visits_reverse_def)

text \<open>
  C3. Decoding is a total function of the reply object, so it returns a result for every
  reply. For a reply without \<open>rootInfo\<close> the root win probability is 0.5, the root score
  lead 0.0 and the root visits 0; for a \<open>rootInfo\<close> without one of the three keys, that
  value is the default. Every entry of \<open>moveInfos\<close> is decoded (none is dropped), and an
  entry without \<open>visits\<close>, \<open>winrate\<close> or \<open>scoreLead\<close> gets 0, 0.5 or 0.0 for it.
\<close>

theorem parse_response_defaults:
  "(r_rootInfo response = None \<longrightarrow>
      root_winrate (parse_response response state) = 0.5
      \<and> root_score_lead (parse_response response state) = 0.0
      \<and> root_visits (parse_response response state) = 0)
   \<and> (r_rootInfo response = Some ri \<longrightarrow>
      (ri_winrate ri = None \<longrightarrow> root_winrate (parse_response response state) = 0.5)
      \<and> (ri_scoreLead ri = None \<longrightarrow> root_score_lead (parse_response response state) = 0.0)
      \<and> (ri_visits ri = None \<longrightarrow> root_visits (parse_response response state) = 0))
   \<and> mset (move_infos (parse_response response state)) =
       mset (map to_move_info (get_default (r_moveInfos response) []))
   \<and> (mi_visits mi = None \<longrightarrow> visits (to_move_info mi) = 0)
   \<and> (mi_winrate mi = None \<longrightarrow> winrate (to_move_info mi) = 0.5)
   \<and> (mi_scoreLead mi = None \<longrightarrow> score_lead (to_move_info mi) = 0.0)"
  by (simp add: parse_response_def Let_def get_default_def empty_dict_def to_move_info_def
      sort_visits_reverse_mset)

theorem parse_response_defaults_witness:
  "r_rootInfo example_noroot = None
   \<and> root_winrate (parse_response example_noroot example_state) = 0.5
   \<and> root_score_lead (parse_response example_noroot example_state) = 0.0
   \<and> root_visits (parse_response example_noroot example_state) = 0
   \<and> ri_winrate example_partial_root = None \<and> ri_scoreLead example_partial_root = None
   \<and> root_winrate (parse_response (example_noroot\<lparr>r_rootInfo := Some example_partial_root\<rparr>)
         example_state) = 0.5
   \<and> root_score_lead (parse_response (example_noroot\<lparr>r_rootInfo := Some example_partial_root\<rparr>)
         example_state) = 0.0
   \<and> mi_visits example_bare = None \<and> mi_winrate example_bare = None
   \<and> mi_scoreLead example_bare = None
   \<and> visits (to_move_info example_bare) = 0
   \<and> winrate (to_move_info example_bare) = 0.5
   \<and> score_lead (to_move_info example_bare) = 0.0"
proof -
  have a: "r_rootInfo example_noroot = None"
    by (simp add: example_noroot_def)
  have b: "r_rootInfo (example_noroot\<lparr>r_rootInfo := Some example_partial_root\<rparr>) =
           Some example_partial_root"
    by simp
  have c: "ri_winrate example_partial_root = None" "ri_scoreLead example_partial_root = None"
    by (simp_all add: example_partial_root_def)
  have d: "mi_visits example_bare = None" "mi_winrate example_bare = None"
    "mi_scoreLead example_bare = None"
    by (simp_all add: example_bare_def)
  show ?thesis
    using parse_response_defaults [of example_noroot example_state example_partial_root
        example_bare]
      parse_response_defaults [of "example_noroot\<lparr>r_rootInfo := Some example_partial_root\<rparr>"
        example_state example_partial_root example_bare] a b c d
    by simp
qed

subsection \<open>Building a query\<close>

lemma map_of_rules_map:
  "map_of rules_map k = (if k \<in> set (map fst rules_map) then Some k else None)"
  by (simp add: rules_map_def)

lemma py_lower_japanese: "py_lower ''Japanese'' = ''japanese''"
  by code_simp

lemma py_lower_ing: "py_lower ''ING'' = ''ing''"
  by code_simp

lemma example_coord: "coord_to_gtp 3 15 19 = Inr ''Q16''"
  by (simp add: coord_to_gtp_def py_getitem_def letters_def py_str_int_16)

lemma example_build:
  "build_query ''u1'' (example_state\<lparr>rules := r\<rparr>) 100 True False 10 =
     Inr (example_query (get_default (map_of rules_map (py_lower r)) ''chinese''))"
  by (simp add: build_query_def example_state_def example_query_def example_coord)

text \<open>
  C8. Whether \<open>_build_query\<close> returns a query depends on the moves only, never on the rules
  text. The query it returns has as rules the lower-cased rules text of the position when
  that is one of the seven names of the table, and \<open>chinese\<close> otherwise.
\<close>

theorem build_query_rules:
  "(build_query uid state mv io ip pvl = Inr q \<longrightarrow>
      q_rules q = (if py_lower (rules state) \<in> set (map fst rules_map)
                   then py_lower (rules state) else ''chinese''))
   \<and> isl (build_query uid (state\<lparr>rules := r\<rparr>) mv io ip pvl) =
       isl (build_query uid state mv io ip pvl)
   \<and> set (map fst rules_map) =
       {''chinese'', ''japanese'', ''korean'', ''aga'', ''nz'', ''tromp-taylor'',
        ''stone-scoring''}"
  by (auto simp add: build_query_def map_of_rules_map get_default_def rules_map_def
      split: sum.splits)

theorem build_query_rules_witness:
  "build_query ''u1'' example_state 100 True False 10 = Inr (example_query ''japanese'')
   \<and> q_rules (example_query ''japanese'') = ''japanese''
   \<and> build_query ''u1'' (example_state\<lparr>rules := ''ING''\<rparr>) 100 True False 10 =
       Inr (example_query ''chinese'')
   \<and> q_rules (example_query ''chinese'') = ''chinese''"
proof -
  have s: "example_state\<lparr>rules := ''Japanese''\<rparr> = example_state"
    by (simp add: example_state_def)
  have a: "build_query ''u1'' example_state 100 True False 10 = Inr (example_query ''japanese'')"
    using example_build [of "''Japanese''"]
    by (simp add: s py_lower_japanese rules_map_def get_default_def)
  have b: "build_query ''u1'' (example_state\<lparr>rules := ''ING''\<rparr>) 100 True False 10 =
       Inr (example_query ''chinese'')"
    using example_build [of "''ING''"]
    by (simp add: py_lower_ing rules_map_def get_default_def)
  have c: "py_lower (rules example_state) = ''japanese''"
    "py_lower (rules (example_state\<lparr>rules := ''ING''\<rparr>)) = ''ing''"
    by (simp_all add: example_state_def py_lower_japanese py_lower_ing)
  show ?thesis
    using build_query_rules [of "''u1''" example_state 100 True False 10
        "example_query ''japanese''" "''ING''"]
      build_query_rules [of "''u1''" "example_state\<lparr>rules := ''ING''\<rparr>" 100 True False 10
        "example_query ''chinese''" "''ING''"] a b c
    by (simp add: rules_map_def)
qed

section \<open>The stdout reader\<close>

lemma py_strip_nonempty: "py_strip raw \<noteq> [] \<Longrightarrow> raw \<noteq> []"
  by (auto simp add: py_strip_def)

lemma deliver_no_id:
  "r_id response = None \<or> r_id response = Some [] \<Longrightarrow> deliver c response = c"
  by (auto simp add: deliver_def)

lemma deliver_with_id:
  "r_id response = Some request_id \<Longrightarrow> request_id \<noteq> [] \<Longrightarrow>
   pending_requests c request_id = Some event \<Longrightarrow>
   deliver c response =
     c\<lparr>responses := (responses c)(request_id \<mapsto> response),
       events := (events c)(event := True)\<rparr>"
  by (simp add: deliver_def)

lemma deliver_pending: "pending_requests (deliver c response) = pending_requests c"
  by (simp add: deliver_def Let_def split: option.splits)

lemma deliver_process: "process (deliver c response) = process c"
  by (simp add: deliver_def Let_def split: option.splits)

lemma deliver_next_event: "next_event (deliver c response) = next_event c"
  by (simp add: deliver_def Let_def split: option.splits)

lemma read_responses_pending:
  "pending_requests (snd (read_responses loads c evs)) = pending_requests c"
  by (induction loads c evs rule: read_responses.induct)
    (simp_all add: deliver_pending split: read_event.splits loads_result.splits)


lemma read_line_object:
  "process c \<noteq> None \<Longrightarrow> py_strip raw \<noteq> [] \<Longrightarrow> loads (py_strip raw) = Object response \<Longrightarrow>
   read_responses loads c (Line raw # rest) = read_responses loads (deliver c response) rest"
  using py_strip_nonempty [of raw] by auto



text \<open>
  C10. A line that decodes to an object whose identifier is absent or the empty text
  leaves the whole client state as it is (the reply cache, the table and every event
  flag) and the loop goes on with the next read.
\<close>

theorem reader_discards_without_id:
  assumes "process c \<noteq> None" and "py_strip raw \<noteq> []"
    and "loads (py_strip raw) = Object response"
    and "r_id response = None \<or> r_id response = Some []"
  shows "deliver c response = c
     \<and> read_responses loads c (Line raw # rest) = read_responses loads c rest"
proof -
  have d: "deliver c response = c"
    using assms(4) by (rule deliver_no_id)
  have "read_responses loads c (Line raw # rest) =
        read_responses loads (deliver c response) rest"
    using assms(1-3) by (rule read_line_object)
  with d show ?thesis
    by simp
qed


section \<open>Sending a query\<close>

lemma start_ok_process:
  "start env (c, w) = (Inr u, c', w') \<Longrightarrow> process c' \<noteq> None"
  by (auto simp add: start_def Let_def split: if_splits option.splits)

lemma start_frame:
  "start env (c, w) = (r, c', w') \<Longrightarrow>
   pending_requests c' = pending_requests c \<and> responses c' = responses c
   \<and> events c' = events c \<and> next_event c' = next_event c
   \<and> stderr_lines c' = stderr_lines c \<and> stdin_sent w' = stdin_sent w"
  by (auto simp add: start_def Let_def split: if_splits option.splits)

text \<open>
  C6. Take a call of \<open>_send_query\<close> that gets as far as the write (the process is alive at
  the first test or \<open>start\<close> succeeds, and it is alive at the second test) and whose write
  raises. The call raises \<open>RuntimeError\<close> with the text
  \<open>KataGo process died (broken pipe). Recent stderr:\<close>, a line feed and the last twenty
  captured lines of standard error joined by line feeds. In the state it leaves, the table
  has no entry for the identifier of the query, every other entry is as before the call,
  and nothing has been written.
\<close>

theorem send_query_broken_pipe:
  assumes "is_alive c (sn_alive_before env) \<or> fst (start (sn_start env) (c, w)) = Inr ()"
    and "sn_alive_after env" and "sn_write_fails env"
  shows "\<exists>c' w'. send_query env (c, w) qry =
           (Inl (RuntimeError (''KataGo process died (broken pipe). Recent stderr:'' @ newline @
                   py_join newline (py_last_n 20 (stderr_lines c)))), c', w')
         \<and> pending_requests c' (get_default (q_id qry) (sn_uuid env)) = None
         \<and> (\<forall>k. k \<noteq> get_default (q_id qry) (sn_uuid env) \<longrightarrow>
                pending_requests c' k = pending_requests c k)
         \<and> stdin_sent w' = stdin_sent w"
proof (cases "is_alive c (sn_alive_before env)")
  case True
  then have "process c \<noteq> None"
    by (simp add: is_alive_def)
  with True assms(2,3) show ?thesis
    by (cases "stderr_lines c = []")
      (simp_all add: send_query_def Let_def is_alive_def py_last_n_def)
next
  case False
  with assms(1) have ok: "fst (start (sn_start env) (c, w)) = Inr ()"
    by simp
  obtain c1 w1 where st: "start (sn_start env) (c, w) = (Inr (), c1, w1)"
    using ok by (cases "start (sn_start env) (c, w)") auto
  have p: "process c1 \<noteq> None"
    using st by (rule start_ok_process)
  note fr = start_frame [OF st]
  show ?thesis
    using False st p fr assms(2,3)
    by (cases "stderr_lines c = []")
      (simp_all add: send_query_def Let_def is_alive_def py_last_n_def)
qed


section \<open>Waiting for a reply\<close>

lemma agree_on_deliver:
  "agree_on k c d \<Longrightarrow> agree_on k (deliver c response) (deliver d response)"
  by (auto simp add: agree_on_def deliver_def Let_def split: option.splits)

lemma agree_on_read:
  "agree_on k c d \<Longrightarrow>
   agree_on k (snd (read_responses loads c evs)) (snd (read_responses loads d evs))"
proof (induction loads c evs arbitrary: d rule: read_responses.induct)
  case (1 loads c)
  then show ?case by simp
next
  case (2 loads c ev rest)
  have p: "process c = process d"
    using "2.prems" by (simp add: agree_on_def)
  show ?case
  proof (cases ev)
    case ReadError
    with "2.prems" p show ?thesis by (simp del: not_None_eq)
  next
    case (Line raw)
    show ?thesis
    proof (cases "process c = None \<or> raw = []")
      case True
      with "2.prems" p Line show ?thesis by (auto simp del: not_None_eq)
    next
      case False
      show ?thesis
      proof (cases "py_strip raw = []")
        case True
        with False Line p "2.prems" "2.IH"(1) [of raw d] show ?thesis by (simp del: not_None_eq)
      next
        case ne: False
        show ?thesis
        proof (cases "loads (py_strip raw)")
          case JSONDecodeError
          with False ne Line p "2.prems" "2.IH"(2) [of raw d] show ?thesis by (simp del: not_None_eq)
        next
          case OtherException
          with False ne Line p "2.prems" show ?thesis by (simp del: not_None_eq)
        next
          case NonObject
          with False ne Line p "2.prems" show ?thesis by (simp del: not_None_eq)
        next
          case (Object response)
          have "agree_on k (deliver c response) (deliver d response)"
            using "2.prems" by (rule agree_on_deliver)
          with False ne Line p Object "2.IH"(3) [of raw response "deliver d response"]
          show ?thesis by (simp del: not_None_eq)
        qed
      qed
    qed
  qed
qed

lemma agree_on_wait:
  assumes "agree_on k c d"
  shows "fst (wait_for_response loads arrived c k) = fst (wait_for_response loads arrived d k)"
proof -
  have a: "agree_on k (snd (read_responses loads c arrived)) (snd (read_responses loads d arrived))"
    using assms by (rule agree_on_read)
  have p: "pending_requests c = pending_requests d"
    using assms by (simp add: agree_on_def)
  show ?thesis
  proof (cases "pending_requests c k")
    case None
    with p show ?thesis by (simp add: wait_for_response_def)
  next
    case (Some e)
    have "pending_requests (snd (read_responses loads c arrived)) k = Some e"
      using Some by (simp add: read_responses_pending)
    with a have "events (snd (read_responses loads c arrived)) e =
                 events (snd (read_responses loads d arrived)) e"
      and "responses (snd (read_responses loads c arrived)) k =
           responses (snd (read_responses loads d arrived)) k"
      by (simp_all add: agree_on_def)
    with Some p show ?thesis
      by (simp add: wait_for_response_def Let_def)
  qed
qed

lemma deliver_other_agree:
  assumes "events_distinct c" "k \<noteq> request_id" "r_id late = Some request_id"
  shows "agree_on k (deliver c late) c"
  using assms
  by (auto simp add: agree_on_def deliver_def Let_def events_distinct_def split: option.splits)

lemma events_distinct_deliver: "events_distinct (deliver c r) = events_distinct c"
  by (simp add: events_distinct_def deliver_pending deliver_next_event)

lemma late_reply_read:
  assumes "events_distinct c" "k \<noteq> request_id" "r_id late = Some request_id"
    and "py_strip raw \<noteq> []" "loads (py_strip raw) = Object late"
  shows "agree_on k (snd (read_responses loads c (xs @ Line raw # ys)))
                    (snd (read_responses loads c (xs @ ys)))"
  using assms(1)
proof (induction xs arbitrary: c)
  case Nil
  show ?case
  proof (cases "process c = None")
    case True
    then show ?thesis
      by (cases ys) (simp_all add: agree_on_def)
  next
    case False
    then have "read_responses loads c (Line raw # ys) = read_responses loads (deliver c late) ys"
      using assms(4,5) by (rule read_line_object)
    moreover have "agree_on k (deliver c late) c"
      using Nil assms(2,3) by (rule deliver_other_agree)
    ultimately show ?thesis
      using agree_on_read [of k "deliver c late" c loads ys] by simp
  qed
next
  case (Cons x xs)
  have refl: "\<And>c. agree_on k c c"
    by (simp add: agree_on_def)
  show ?case
  proof (cases x)
    case ReadError
    then show ?thesis by (simp add: refl del: not_None_eq)
  next
    case (Line l)
    show ?thesis
    proof (cases "loads (py_strip l)")
      case JSONDecodeError
      with Line Cons.IH [OF Cons.prems] show ?thesis by (simp add: refl del: not_None_eq)
    next
      case OtherException
      with Line Cons.IH [OF Cons.prems] show ?thesis by (simp add: refl del: not_None_eq)
    next
      case NonObject
      with Line Cons.IH [OF Cons.prems] show ?thesis by (simp add: refl del: not_None_eq)
    next
      case (Object response)
      have "events_distinct (deliver c response)"
        using Cons.prems by (simp add: events_distinct_deliver)
      with Line Object Cons.IH [of "deliver c response"] Cons.IH [OF Cons.prems]
      show ?thesis by (simp add: refl del: not_None_eq)
    qed
  qed
qed

lemma wait_pending:
  "pending_requests (snd (wait_for_response loads arrived c k)) = pending_requests c"
  by (simp add: wait_for_response_def Let_def read_responses_pending split: option.splits)

lemma late_reply_wait:
  assumes "events_distinct c" "k \<noteq> request_id" "r_id late = Some request_id"
    and "py_strip raw \<noteq> []" "loads (py_strip raw) = Object late"
  shows "fst (wait_for_response loads (xs @ Line raw # ys) c k) =
         fst (wait_for_response loads (xs @ ys) c k)"
proof (cases "pending_requests c k")
  case None
  then show ?thesis by (simp add: wait_for_response_def)
next
  case (Some e)
  have a: "agree_on k (snd (read_responses loads c (xs @ Line raw # ys)))
                      (snd (read_responses loads c (xs @ ys)))"
    using assms by (rule late_reply_read)
  have "pending_requests (snd (read_responses loads c (xs @ Line raw # ys))) k = Some e"
    using Some by (simp add: read_responses_pending)
  with a have "events (snd (read_responses loads c (xs @ Line raw # ys))) e =
               events (snd (read_responses loads c (xs @ ys))) e"
    and "responses (snd (read_responses loads c (xs @ Line raw # ys))) k =
         responses (snd (read_responses loads c (xs @ ys))) k"
    by (simp_all add: agree_on_def)
  with Some show ?thesis
    by (simp add: wait_for_response_def Let_def)
qed

text \<open>
  C4. The wait is modelled with the reads the reader thread handles while the caller
  blocks; the flag of the caller's event is not set at the end of the wait when no reply
  with its identifier was among them. Then \<open>_wait_for_response\<close> returns \<open>None\<close>, and
  \<open>analyze_position\<close>, whose query was built and sent, returns \<open>None\<close> as a value: neither
  raises. A reply for one identifier that arrives at any point among the reads of a wait
  for another identifier does not change what that wait returns, in a client whose table
  names distinct events for distinct identifiers (every reachable client, see
  \<open>events_distinct_send\<close>).
\<close>

theorem timeout_returns_none:
  "(pending_requests c request_id = Some event
      \<and> \<not> events (snd (read_responses loads c arrived)) event \<longrightarrow>
    wait_for_response loads arrived c request_id = (None, snd (read_responses loads c arrived)))
   \<and> (build_query new_uuid state mv io ip pvl = Inr qry
      \<and> send_query env cw qry = (Inr request_id, c1, w1)
      \<and> pending_requests c1 request_id = Some event
      \<and> \<not> events (snd (read_responses loads c1 arrived)) event \<longrightarrow>
    analyze_position loads new_uuid env arrived cw state mv io ip pvl =
      (Inr None, snd (read_responses loads c1 arrived), w1))
   \<and> (events_distinct c \<and> k \<noteq> request_id \<and> r_id late = Some request_id
      \<and> py_strip raw \<noteq> [] \<and> loads (py_strip raw) = Object late \<longrightarrow>
    fst (wait_for_response loads (xs @ Line raw # ys) c k) =
    fst (wait_for_response loads (xs @ ys) c k))"
  by (auto simp add: wait_for_response_def [of loads arrived] analyze_position_def Let_def
      late_reply_wait)

lemma events_distinct_init: "events_distinct (init_client k m cf t d)"
  by (simp add: events_distinct_def init_client_def)

lemma events_distinct_start:
  "start env (c, w) = (r, c', w') \<Longrightarrow> events_distinct c' = events_distinct c"
  using start_frame [of env c w r c' w'] by (simp add: events_distinct_def)

lemma send_query_table:
  assumes "send_query env (c, w) qry = (r, c', w')"
  shows "(pending_requests c' = pending_requests c \<and> next_event c' = next_event c)
       \<or> (next_event c' = Suc (next_event c)
          \<and> (pending_requests c' =
                (pending_requests c)(get_default (q_id qry) (sn_uuid env) := None)
             \<or> pending_requests c' =
                (pending_requests c)(get_default (q_id qry) (sn_uuid env) \<mapsto> next_event c)))"
proof (cases "is_alive c (sn_alive_before env)")
  case True
  with assms show ?thesis
    by (auto simp add: send_query_def Let_def split: if_splits)
next
  case False
  obtain r1 c1 w1 where st: "start (sn_start env) (c, w) = (r1, c1, w1)"
    by (cases "start (sn_start env) (c, w)") auto
  note fr = start_frame [OF st]
  show ?thesis
  proof (cases r1)
    case (Inl e)
    with assms False st fr show ?thesis
      by (simp add: send_query_def)
  next
    case (Inr u)
    with assms False st fr show ?thesis
      by (auto simp add: send_query_def Let_def split: if_splits)
  qed
qed

lemma events_distinct_send:
  assumes "send_query env (c, w) qry = (r, c', w')" "events_distinct c"
  shows "events_distinct c'"
proof -
  have less: "\<And>k e. pending_requests c k = Some e \<Longrightarrow> e < next_event c"
    and inj: "\<And>k k' e. pending_requests c k = Some e \<Longrightarrow> pending_requests c k' = Some e
                \<Longrightarrow> k = k'"
    using assms(2) by (auto simp add: events_distinct_def)
  from send_query_table [OF assms(1)] show ?thesis
  proof (elim disjE conjE)
    assume "pending_requests c' = pending_requests c" "next_event c' = next_event c"
    with assms(2) show ?thesis
      by (simp add: events_distinct_def)
  next
    assume "next_event c' = Suc (next_event c)"
      "pending_requests c' = (pending_requests c)(get_default (q_id qry) (sn_uuid env) := None)"
    then show ?thesis
      by (auto simp add: events_distinct_def split: if_splits dest: inj less less_SucI)
  next
    assume n: "next_event c' = Suc (next_event c)"
      and p: "pending_requests c' =
        (pending_requests c)(get_default (q_id qry) (sn_uuid env) \<mapsto> next_event c)"
    show ?thesis
      unfolding events_distinct_def
    proof (intro conjI allI impI)
      fix k k' e
      assume "pending_requests c' k = Some e \<and> pending_requests c' k' = Some e"
      then show "k = k'"
        using less [of k e] less [of k' e] inj [of k e k']
        by (auto simp add: p split: if_splits)
    next
      fix k e
      assume "pending_requests c' k = Some e"
      then show "e < next_event c'"
        using less [of k e] by (auto simp add: p n split: if_splits)
    qed
  qed
qed

lemma events_distinct_read:
  "events_distinct (snd (read_responses loads c evs)) = events_distinct c"
  by (induction loads c evs rule: read_responses.induct)
    (simp_all add: events_distinct_deliver split: read_event.splits loads_result.splits)

lemma events_distinct_wait:
  "events_distinct (snd (wait_for_response loads arrived c k)) = events_distinct c"
proof -
  have "next_event (snd (read_responses loads c arrived)) = next_event c"
    by (induction loads c arrived rule: read_responses.induct)
      (simp_all add: deliver_next_event split: read_event.splits loads_result.splits)
  then show ?thesis
    by (simp add: wait_for_response_def Let_def events_distinct_def read_responses_pending
        split: option.splits)
qed

lemma example_line_strip: "py_strip (example_line @ newline) = example_line"
  unfolding example_line_def newline_def by code_simp

lemma example_line_object: "example_loads example_line = Object example_reply"
  by (simp add: example_loads_def)



lemma no_id_strip: "py_strip (example_no_id_line @ newline) = example_no_id_line"
  unfolding example_no_id_line_def newline_def by code_simp

lemma no_id_loads: "example_loads example_no_id_line = Object example_no_id"
  by (simp add: example_loads_def example_line_def example_no_id_line_def)


section \<open>The reader on the example client\<close>

lemma example_process: "process example_client \<noteq> None"
  by (simp add: example_client_def)

lemma example_two_process: "process example_two_pending \<noteq> None"
  by (simp add: example_two_pending_def example_client_def)





theorem reader_discards_without_id_witness:
  "process example_two_pending \<noteq> None
   \<and> py_strip (example_no_id_line @ newline) \<noteq> []
   \<and> example_loads (py_strip (example_no_id_line @ newline)) = Object example_no_id
   \<and> r_id example_no_id = None
   \<and> deliver example_two_pending example_no_id = example_two_pending
   \<and> read_responses example_loads example_two_pending [Line (example_no_id_line @ newline)] =
       (StreamClosed, example_two_pending)"
proof -
  have a: "py_strip (example_no_id_line @ newline) \<noteq> []"
    unfolding no_id_strip by (simp add: example_no_id_line_def)
  have b: "example_loads (py_strip (example_no_id_line @ newline)) = Object example_no_id"
    by (simp only: no_id_strip no_id_loads)
  have c: "r_id example_no_id = None"
    by (simp add: example_no_id_def)
  show ?thesis
    using reader_discards_without_id [of example_two_pending "example_no_id_line @ newline"
        example_loads example_no_id "[]"] a b c example_two_process
    by (simp del: not_None_eq)
qed

lemma example_stderr_tail:
  "py_join newline (py_last_n 20 (stderr_lines example_client)) =
     ''loading model'' @ newline @ ''ready''"
  by (simp add: example_client_def py_last_n_def)

theorem send_query_broken_pipe_witness:
  "is_alive example_client (sn_alive_before example_broken_env)
   \<and> sn_alive_after example_broken_env \<and> sn_write_fails example_broken_env
   \<and> fst (send_query example_broken_env (example_client, example_world)
             (example_query ''chinese'')) =
       Inl (RuntimeError (''KataGo process died (broken pipe). Recent stderr:'' @ newline @
              ''loading model'' @ newline @ ''ready''))
   \<and> pending_requests (fst (snd (send_query example_broken_env (example_client, example_world)
             (example_query ''chinese'')))) ''u1'' = None
   \<and> fst (start (sn_start example_cold_env) (example_client\<lparr>process := None\<rparr>, example_world))
       = Inr ()
   \<and> pending_requests (fst (snd (send_query example_cold_env
          (example_client\<lparr>process := None\<rparr>, example_world) (example_query ''chinese''))))
        ''u1'' = None"
proof -
  have a: "is_alive example_client (sn_alive_before example_broken_env)"
    by (simp add: is_alive_def example_client_def example_broken_env_def example_send_env_def)
  have b: "sn_alive_after example_broken_env" "sn_write_fails example_broken_env"
    by (simp_all add: example_broken_env_def example_send_env_def)
  have c: "get_default (q_id (example_query ''chinese'')) (sn_uuid example_broken_env) = ''u1''"
    "get_default (q_id (example_query ''chinese'')) (sn_uuid example_cold_env) = ''u1''"
    by (simp_all add: example_query_def get_default_def)
  have d: "fst (start (sn_start example_cold_env) (example_client\<lparr>process := None\<rparr>, example_world))
       = Inr ()"
    by (simp add: start_def example_cold_env_def example_start_env_def example_client_def
        init_client_def Let_def)
  have e: "sn_alive_after example_cold_env" "sn_write_fails example_cold_env"
    by (simp_all add: example_cold_env_def)
  have f: "stderr_lines (example_client\<lparr>process := None\<rparr>) = stderr_lines example_client"
    by simp
  from send_query_broken_pipe [of example_client example_broken_env example_world
      "example_query ''chinese''"] a b c example_stderr_tail
  have one: "fst (send_query example_broken_env (example_client, example_world)
             (example_query ''chinese'')) =
       Inl (RuntimeError (''KataGo process died (broken pipe). Recent stderr:'' @ newline @
              ''loading model'' @ newline @ ''ready''))
   \<and> pending_requests (fst (snd (send_query example_broken_env (example_client, example_world)
             (example_query ''chinese'')))) ''u1'' = None"
    by auto
  from send_query_broken_pipe [of "example_client\<lparr>process := None\<rparr>" example_cold_env
      example_world "example_query ''chinese''"] d e c
  have two: "pending_requests (fst (snd (send_query example_cold_env
          (example_client\<lparr>process := None\<rparr>, example_world) (example_query ''chinese''))))
        ''u1'' = None"
    by auto
  show ?thesis
    using a b d one two by simp
qed

lemma example_send:
  "send_query example_send_env (example_client, example_world) (example_query r) =
     (Inr ''u1'', example_sent, example_world\<lparr>stdin_sent := [example_query r]\<rparr>)"
  by (simp add: send_query_def is_alive_def example_send_env_def example_client_def
      init_client_def example_query_def example_world_def example_sent_def get_default_def
      Let_def)

lemma example_build_japanese:
  "build_query ''u1'' example_state 100 True False 10 = Inr (example_query ''japanese'')"
proof -
  have "example_state\<lparr>rules := ''Japanese''\<rparr> = example_state"
    by (simp add: example_state_def)
  then show ?thesis
    using example_build [of "''Japanese''"]
    by (simp add: py_lower_japanese rules_map_def get_default_def)
qed

lemma example_two_distinct: "events_distinct example_two_pending"
  by (auto simp add: events_distinct_def example_two_pending_def split: if_splits)

theorem timeout_returns_none_witness:
  "pending_requests example_two_pending ''u1'' = Some 0
   \<and> \<not> events (snd (read_responses example_loads example_two_pending [])) 0
   \<and> wait_for_response example_loads [] example_two_pending ''u1'' = (None, example_two_pending)
   \<and> pending_requests example_sent ''u1'' = Some 0
   \<and> \<not> events (snd (read_responses example_loads example_sent [])) 0
   \<and> analyze_position example_loads ''u1'' example_send_env [] (example_client, example_world)
        example_state 100 True False 10 =
       (Inr None, example_sent, example_world\<lparr>stdin_sent := [example_query ''japanese'']\<rparr>)
   \<and> events_distinct example_two_pending
   \<and> r_id example_reply = Some ''u1''
   \<and> example_loads (py_strip (example_line @ newline)) = Object example_reply
   \<and> fst (wait_for_response example_loads [Line (example_line @ newline)]
             example_two_pending ''u2'') = None"
proof -
  have a: "pending_requests example_two_pending ''u1'' = Some 0"
    "pending_requests example_sent ''u1'' = Some 0"
    by (simp_all add: example_two_pending_def example_sent_def)
  have r: "snd (read_responses example_loads example_two_pending []) = example_two_pending"
    "snd (read_responses example_loads example_sent []) = example_sent"
    by simp_all
  have b: "\<not> events example_two_pending 0" "\<not> events example_sent 0"
    by (simp_all add: example_two_pending_def example_sent_def example_client_def
        init_client_def)
  have c: "r_id example_reply = Some ''u1''"
    by (simp add: example_reply_def)
  have d: "example_loads (py_strip (example_line @ newline)) = Object example_reply"
    by (simp only: example_line_strip example_line_object)
  have e: "py_strip (example_line @ newline) \<noteq> []"
    unfolding example_line_strip by (simp add: example_line_def)
  have f: "fst (wait_for_response example_loads [] example_two_pending ''u2'') = None"
    by (simp add: wait_for_response_def example_two_pending_def example_client_def
        init_client_def)
  have g: "''u2'' \<noteq> ''u1''"
    by simp
  note t = timeout_returns_none [where c = example_two_pending and request_id = "''u1''"
      and event = 0 and loads = example_loads and arrived = "[]" and new_uuid = "''u1''"
      and state = example_state and mv = 100 and io = True and ip = False and pvl = 10
      and qry = "example_query ''japanese''" and env = example_send_env
      and cw = "(example_client, example_world)" and ?c1.0 = example_sent
      and ?w1.0 = "example_world\<lparr>stdin_sent := [example_query ''japanese'']\<rparr>"
      and k = "''u2''" and late = example_reply and raw = "example_line @ newline"
      and xs = "[]" and ys = "[]"]
  show ?thesis
    using t a b c d e f g r example_send [of "''japanese''"] example_build_japanese
      example_two_distinct
    by simp
qed


section \<open>Starting the engine\<close>

lemma py_str_int_2: "py_str_int 2 = ''2''"
  by code_simp

text \<open>
  Calls of \<open>start\<close> that do not end in \<open>FileNotFoundError\<close> although a configured file is
  missing.
  In the first no process is held, the executable and the model exist and the protocol
  configuration file does not: the engine is launched, and if it then exits at once the
  error is the \<open>RuntimeError\<close> for a dead process. In the last the held process is
  running and no file exists: the call returns at once.
\<close>

theorem start_config_counterexample:
  "\<not> se_exists example_no_config_env (config_path example_stopped)
   \<and> start example_no_config_env (example_stopped, example_world) =
       (Inr (),
        example_stopped\<lparr>process := Some example_cmd, reader_thread := True,
                         stderr_thread := True\<rparr>,
        example_world\<lparr>popen_calls := [example_cmd]\<rparr>)
   \<and> start (example_no_config_env\<lparr>se_exit_stderr := Some ''cannot open config''\<rparr>)
         (example_stopped, example_world) =
       (Inl (RuntimeError ''KataGo process died immediately. Stderr: cannot open config''),
        example_stopped\<lparr>process := Some example_cmd, startup_error :=
          Some ''KataGo process died immediately. Stderr: cannot open config''\<rparr>,
        example_world\<lparr>popen_calls := [example_cmd]\<rparr>)
   \<and> \<not> se_exists example_no_files_env (katago_path example_client)
   \<and> start example_no_files_env (example_client, example_world) =
       (Inr (), example_client, example_world)"
  by (simp add: start_def example_no_config_env_def example_no_files_env_def
      example_start_env_def example_stopped_def example_client_def init_client_def
      example_world_def example_cmd_def py_str_int_2 Let_def)

text \<open>
  C9, as the code has it. Take a call of \<open>start\<close> made while no process is held or the held
  one has exited. If the executable does not exist, or it exists and the model file does
  not, the call raises \<open>FileNotFoundError\<close> with a message that ends in the missing path
  (the executable's when both are missing) and keeps the message as the startup error;
  \<open>Popen\<close> is not called and the process field is as before. The protocol configuration
  path is not tested.
\<close>

theorem start_missing_file:
  assumes "process c = None \<or> \<not> se_running env"
    and "\<not> se_exists env (katago_path c) \<or> \<not> se_exists env (model_path c)"
  shows "\<exists>msg. start env (c, w) =
           (Inl (FileNotFoundError msg), c\<lparr>startup_error := Some msg\<rparr>, w)
         \<and> msg = (if \<not> se_exists env (katago_path c)
                   then ''KataGo executable not found: '' @ katago_path c
                   else ''KataGo model not found: '' @ model_path c)"
  using assms by (auto simp add: start_def Let_def)

theorem start_missing_file_witness:
  "(process example_stopped = None \<or> \<not> se_running example_no_model_env)
   \<and> \<not> se_exists example_no_model_env (model_path example_stopped)
   \<and> start example_no_model_env (example_stopped, example_world) =
       (Inl (FileNotFoundError ''KataGo model not found: /models/kata1.bin.gz''),
        example_stopped\<lparr>startup_error :=
          Some ''KataGo model not found: /models/kata1.bin.gz''\<rparr>,
        example_world)"
proof -
  have a: "process example_stopped = None \<or> \<not> se_running example_no_model_env"
    by (simp add: example_stopped_def)
  have b: "\<not> se_exists example_no_model_env (model_path example_stopped)"
    "se_exists example_no_model_env (katago_path example_stopped)"
    by (simp_all add: example_no_model_env_def example_stopped_def example_client_def
        init_client_def)
  have c: "model_path example_stopped = ''/models/kata1.bin.gz''"
    by (simp add: example_stopped_def example_client_def init_client_def)
  show ?thesis
    using start_missing_file [of example_stopped example_no_model_env example_world] a b c
    by auto
qed


section \<open>The lifetime of a table entry\<close>

text \<open>
  C7. \<open>_send_query\<close> puts the entry into the table before it writes the query. The wait
  does not take it out again (\<open>wait_pending\<close>): on the example client the entry for \<open>u1\<close>
  is still in the table after the reply has been consumed, and after a wait that ended
  without a reply. Only the failed write removes an entry (\<open>send_query_table\<close>).
\<close>

theorem pending_entry_survives_wait:
  "send_query example_send_env (example_client, example_world) (example_query ''japanese'') =
     (Inr ''u1'', example_sent, example_world\<lparr>stdin_sent := [example_query ''japanese'']\<rparr>)
   \<and> pending_requests example_sent ''u1'' = Some 0
   \<and> fst (wait_for_response example_loads [Line (example_line @ newline)] example_sent ''u1'') =
       Some example_reply
   \<and> pending_requests
        (snd (wait_for_response example_loads [Line (example_line @ newline)] example_sent ''u1''))
        ''u1'' = Some 0
   \<and> fst (wait_for_response example_loads [] example_sent ''u1'') = None
   \<and> pending_requests (snd (wait_for_response example_loads [] example_sent ''u1'')) ''u1'' =
       Some 0"
proof -
  have p: "pending_requests example_sent ''u1'' = Some 0"
    by (simp add: example_sent_def)
  have pr: "process example_sent \<noteq> None"
    by (simp add: example_sent_def example_client_def)
  have ne: "py_strip (example_line @ newline) \<noteq> []"
    unfolding example_line_strip by (simp add: example_line_def)
  have ob: "example_loads (py_strip (example_line @ newline)) = Object example_reply"
    by (simp only: example_line_strip example_line_object)
  have "read_responses example_loads example_sent [Line (example_line @ newline)] =
        read_responses example_loads (deliver example_sent example_reply) []"
    using pr ne ob by (rule read_line_object)
  moreover have "deliver example_sent example_reply =
      example_sent\<lparr>responses := (responses example_sent)(''u1'' \<mapsto> example_reply),
                    events := (events example_sent)(0 := True)\<rparr>"
    using p by (intro deliver_with_id) (simp_all add: example_reply_def)
  ultimately have rd: "snd (read_responses example_loads example_sent [Line (example_line @ newline)]) =
      example_sent\<lparr>responses := (responses example_sent)(''u1'' \<mapsto> example_reply),
                    events := (events example_sent)(0 := True)\<rparr>"
    by simp
  have w1: "fst (wait_for_response example_loads [Line (example_line @ newline)] example_sent ''u1'') =
       Some example_reply"
    using p by (simp add: wait_for_response_def rd Let_def del: read_responses.simps)
  have w2: "fst (wait_for_response example_loads [] example_sent ''u1'') = None"
    using p by (simp add: wait_for_response_def example_sent_def example_client_def
        init_client_def)
  show ?thesis
    using example_send [of "''japanese''"] p w1 w2 by (simp add: wait_pending)
qed

end
